theory Spec2Isabelle
  imports Main "HOL-Library.List_Lexorder" "HOL-Library.Sublist" "HOL-Library.Multiset"
begin

section \<open>Text\<close>

text \<open>
  A Python \<open>str\<close> is a sequence of Unicode code points. It is modelled as a list of
  natural numbers, one per code point; \<open>py\<close> turns an ASCII literal into that form.
  With the lexicographic order on lists, \<open>\<le>\<close> on \<open>pystr\<close> is Python's comparison of
  strings (code point by code point, a proper prefix being smaller).
\<close>

type_synonym pystr = "nat list"

definition py :: "string \<Rightarrow> pystr" where
  "py s = map of_char s"

definition newline :: nat where
  "newline = 10"

section \<open>The import extractor: \<open>parse_imports\<close>\<close>

text \<open>
  The pattern of the source is
  \<^verbatim>\<open>^\s*(?:import|from)\s+([a-zA-Z0-9_]+)\<close>, compiled for \<open>str\<close> with
  \<open>re.MULTILINE\<close>.

  \<open>is_space\<close> is the class \<open>\s\<close> of a \<open>str\<close> pattern: the code points Python
  calls whitespace (tab, line feed, vertical tab, form feed, carriage return, the
  separators 28 to 31, space, and the Unicode spaces beyond ASCII).
  \<open>is_ident\<close> is the class \<open>[a-zA-Z0-9_]\<close>.
\<close>

definition is_space :: "nat \<Rightarrow> bool" where
  "is_space c \<longleftrightarrow>
     (9 \<le> c \<and> c \<le> 13) \<or> (28 \<le> c \<and> c \<le> 32) \<or> c = 133 \<or> c = 160 \<or> c = 5760 \<or>
     (8192 \<le> c \<and> c \<le> 8202) \<or> c = 8232 \<or> c = 8233 \<or> c = 8239 \<or> c = 8287 \<or>
     c = 12288"

definition is_ident :: "nat \<Rightarrow> bool" where
  "is_ident c \<longleftrightarrow>
     (97 \<le> c \<and> c \<le> 122) \<or> (65 \<le> c \<and> c \<le> 90) \<or> (48 \<le> c \<and> c \<le> 57) \<or> c = 95"

definition kw_import :: pystr where
  "kw_import = py ''import''"

definition kw_from :: pystr where
  "kw_from = py ''from''"

text \<open>
  \<open>match_tail\<close> is the part of the pattern after the keyword,
  \<^verbatim>\<open>\s+([a-zA-Z0-9_]+)\<close>: at least one whitespace character, then the group. Both
  repetitions are greedy. It returns the text of group 1 and the text after the match.
\<close>

fun match_tail :: "pystr \<Rightarrow> (pystr \<times> pystr) option" where
  "match_tail [] = None"
| "match_tail (c # cs) =
     (if is_space c then
        (let s = dropWhile is_space cs; g = takeWhile is_ident s
         in if g = [] then None else Some (g, dropWhile is_ident s))
      else None)"

text \<open>
  \<open>match_here\<close> tries the pattern at a position where \<open>^\<close> holds; its argument is
  the text from that position on. After the greedy \<open>\s*\<close> the alternatives are tried in
  the order of the pattern, \<open>import\<close> first and \<open>from\<close> when that branch fails.
\<close>

definition match_here :: "pystr \<Rightarrow> (pystr \<times> pystr) option" where
  "match_here t =
     (let s = dropWhile is_space t in
      case (if take (length kw_import) s = kw_import
            then match_tail (drop (length kw_import) s) else None) of
        Some m \<Rightarrow> Some m
      | None \<Rightarrow>
          (if take (length kw_from) s = kw_from
           then match_tail (drop (length kw_from) s) else None))"

lemma match_tail_shorter:
  assumes "match_tail s = Some (g, r)"
  shows "length r < length s"
proof (cases s)
  case Nil
  with assms show ?thesis by simp
next
  case (Cons c cs)
  have "length (dropWhile is_ident (dropWhile is_space cs)) \<le> length cs"
    by (meson length_dropWhile_le order_trans)
  with assms Cons show ?thesis
    by (auto simp: Let_def split: if_splits)
qed

lemma match_here_shorter:
  assumes "match_here t = Some (g, r)"
  shows "length r < length t"
proof -
  have le: "length (dropWhile is_space t) \<le> length t"
    by (rule length_dropWhile_le)
  from assms consider
      "match_tail (drop (length kw_import) (dropWhile is_space t)) = Some (g, r)"
    | "match_tail (drop (length kw_from) (dropWhile is_space t)) = Some (g, r)"
    by (auto simp: match_here_def Let_def split: option.splits if_splits)
  then show ?thesis
  proof cases
    case 1
    from match_tail_shorter [OF 1] le show ?thesis by simp
  next
    case 2
    from match_tail_shorter [OF 2] le show ?thesis by simp
  qed
qed

text \<open>
  \<open>finditer_from bol t\<close> is the loop of \<open>re.finditer\<close> over the rest \<open>t\<close> of the
  content: the texts of group 1 of the successive non-overlapping matches, leftmost
  first. \<open>bol\<close> says whether \<open>^\<close> holds at the current position, that is whether the
  position is the start of the content or follows a line feed. A search that fails at
  a position moves one character on; after a match the search resumes where the match
  ended, and the character before that position is the last one of the group.
\<close>

function finditer_from :: "bool \<Rightarrow> pystr \<Rightarrow> pystr list" where
  "finditer_from bol [] = []"
| "finditer_from bol (c # cs) =
     (case (if bol then match_here (c # cs) else None) of
        Some (g, r) \<Rightarrow> g # finditer_from (last g = newline) r
      | None \<Rightarrow> finditer_from (c = newline) cs)"
  by pat_completeness auto
termination
proof (relation "measure (\<lambda>(bol, t). length t)")
  show "wf (measure (\<lambda>(bol, t). length t))"
    by simp
next
  fix bol c cs x2 x y
  assume "(if bol then match_here (c # cs) else None) = Some x2" and "(x, y) = x2"
  then have "match_here (c # cs) = Some (x, y)"
    by (simp split: if_splits)
  from match_here_shorter [OF this]
  show "((last x = newline, y), (bol, c # cs)) \<in> measure (\<lambda>(bol, t). length t)"
    by simp
next
  fix bol c cs
  show "((c = newline, cs), (bol, c # cs)) \<in> measure (\<lambda>(bol, t). length t)"
    by simp
qed

definition finditer :: "pystr \<Rightarrow> pystr list" where
  "finditer content = finditer_from True content"

text \<open>
  The names the extractor collects from a content that was read: the set of the
  texts of group 1.
\<close>

definition imports_of :: "pystr \<Rightarrow> pystr set" where
  "imports_of content = set (finditer content)"



section \<open>The dependency resolver: \<open>map_to_pip_packages\<close>\<close>

text \<open>
  The dict \<open>package_mapping\<close> is an association list read through \<open>map_of\<close>, the
  set \<open>stdlib\<close> a list read through \<open>set\<close>. \<open>dict_get d k v\<close> is \<open>d.get(k, v)\<close>.
\<close>

definition package_mapping :: "(pystr \<times> pystr) list" where
  "package_mapping =
     [(py ''cv2'', py ''opencv-python''),
      (py ''PIL'', py ''Pillow''),
      (py ''sklearn'', py ''scikit-learn''),
      (py ''yaml'', py ''pyyaml''),
      (py ''dotenv'', py ''python-dotenv''),
      (py ''bs4'', py ''beautifulsoup4''),
      (py ''dateutil'', py ''python-dateutil'')]"

definition stdlib :: "pystr list" where
  "stdlib = map py
     [''os'', ''sys'', ''re'', ''json'', ''time'', ''datetime'', ''math'', ''random'',
      ''collections'', ''itertools'', ''functools'', ''pathlib'', ''subprocess'',
      ''threading'', ''multiprocessing'', ''logging'', ''argparse'', ''io'',
      ''shutil'', ''tempfile'', ''glob'', ''pickle'', ''csv'', ''urllib'', ''http'',
      ''socket'', ''email'', ''html'', ''xml'', ''sqlite3'', ''hashlib'', ''hmac'',
      ''base64'', ''binascii'', ''struct'', ''array'', ''enum'', ''typing'', ''copy'',
      ''weakref'', ''contextlib'', ''abc'', ''asyncio'', ''concurrent'', ''queue'',
      ''secrets'', ''string'', ''textwrap'', ''unicodedata'', ''codecs'', ''encodings'',
      ''decimal'', ''fractions'', ''statistics'', ''heapq'', ''bisect'', ''pprint'',
      ''reprlib'', ''dataclasses'', ''graphlib'', ''warnings'', ''traceback'', ''inspect'',
      ''importlib'', ''pkgutil'', ''modulefinder'', ''runpy'', ''site'', ''builtins'']"

definition dict_get :: "('k \<times> 'v) list \<Rightarrow> 'k \<Rightarrow> 'v \<Rightarrow> 'v" where
  "dict_get d k dflt = (case map_of d k of Some v \<Rightarrow> v | None \<Rightarrow> dflt)"

text \<open>
  The loop \<open>for imp in imports\<close> with its accumulator \<open>pip_packages\<close>. The argument
  of the source is a set; the list \<open>imports\<close> here is that set in the order in which
  the loop visits it, which Python does not fix. Statements about the resolver
  therefore hold for every list, or for every duplicate-free list.
\<close>

fun map_loop :: "pystr list \<Rightarrow> pystr list \<Rightarrow> pystr list" where
  "map_loop [] pip_packages = pip_packages"
| "map_loop (imp # imports) pip_packages =
     (if imp \<in> set stdlib then map_loop imports pip_packages
      else (let package = dict_get package_mapping imp imp
            in map_loop imports (pip_packages @ [package])))"

definition map_to_pip_packages :: "pystr list \<Rightarrow> pystr list" where
  "map_to_pip_packages imports = map_loop imports []"

section \<open>The environment and the effects\<close>

text \<open>
  Exceptions are values. The argument of a constructor is the text \<open>str(e)\<close>.
  \<open>KeyboardInterrupt\<close> is the only one that is not an \<open>Exception\<close>.
\<close>

datatype exn =
    OSError pystr
  | FileNotFoundError pystr
  | UnicodeDecodeError pystr
  | CalledProcessError pystr
  | KeyboardInterrupt

fun exn_str :: "exn \<Rightarrow> pystr" where
  "exn_str (OSError m) = m"
| "exn_str (FileNotFoundError m) = m"
| "exn_str (UnicodeDecodeError m) = m"
| "exn_str (CalledProcessError m) = m"
| "exn_str KeyboardInterrupt = []"

fun is_Exception :: "exn \<Rightarrow> bool" where
  "is_Exception KeyboardInterrupt = False"
| "is_Exception _ = True"

text \<open>
  What the program asks of its platform is a parameter: the file system as it is
  read (\<open>isfile\<close>; \<open>read_file\<close>, the outcome of opening a path for reading and
  reading it all), whether opening a path for writing raises (\<open>write_error\<close>), the
  functions of \<open>os.path\<close> and \<open>str.lower\<close>, the outcome of \<open>subprocess.run\<close>
  with \<open>check=True\<close> for a command line and a working directory (\<open>None\<close>: the
  command ran and returned 0), and the order in which a set is iterated.
\<close>

record env =
  isfile :: "pystr \<Rightarrow> bool"
  read_file :: "pystr \<Rightarrow> exn + pystr"
  write_error :: "pystr \<Rightarrow> exn option"
  abspath :: "pystr \<Rightarrow> pystr"
  dirname :: "pystr \<Rightarrow> pystr"
  basename :: "pystr \<Rightarrow> pystr"
  splitext :: "pystr \<Rightarrow> pystr \<times> pystr"
  path_join :: "pystr \<Rightarrow> pystr \<Rightarrow> pystr"
  str_lower :: "pystr \<Rightarrow> pystr"
  subprocess_run :: "pystr list \<Rightarrow> pystr option \<Rightarrow> exn option"
  set_iteration :: "pystr set \<Rightarrow> pystr list"

text \<open>
  What the program changes: the files it has written, by path, and the text it has
  printed.
\<close>

record state =
  files :: "pystr \<rightharpoonup> pystr"
  stdout :: pystr

definition print :: "pystr \<Rightarrow> state \<Rightarrow> state" where
  "print s st = st\<lparr>stdout := stdout st @ s @ [newline]\<rparr>"

definition prints :: "pystr list \<Rightarrow> state \<Rightarrow> state" where
  "prints ls st = fold print ls st"

definition write_file :: "env \<Rightarrow> pystr \<Rightarrow> pystr \<Rightarrow> state \<Rightarrow> (exn + unit) \<times> state" where
  "write_file e path content st =
     (case write_error e path of
        Some x \<Rightarrow> (Inl x, st)
      | None \<Rightarrow> (Inr (), st\<lparr>files := (files st)(path \<mapsto> content)\<rparr>))"

text \<open>The extractor with its file access and its handler \<open>except Exception\<close>.\<close>

definition parse_imports :: "env \<Rightarrow> pystr \<Rightarrow> state \<Rightarrow> (exn + pystr set) \<times> state" where
  "parse_imports e python_file st =
     (case read_file e python_file of
        Inr content \<Rightarrow> (Inr (imports_of content), st)
      | Inl x \<Rightarrow>
          if is_Exception x then
            (Inr {},
             print (py ''Warning: Could not parse imports from '' @ python_file @ py '': ''
                    @ exn_str x) st)
          else (Inl x, st))"

section \<open>The manifest generator\<close>

text \<open>\<open>str_join sep xs\<close> is \<open>sep.join(xs)\<close>.\<close>

fun str_join :: "pystr \<Rightarrow> pystr list \<Rightarrow> pystr" where
  "str_join sep [] = []"
| "str_join sep [x] = x"
| "str_join sep (x # y # ys) = x @ sep @ str_join sep (y # ys)"

definition dquote :: nat where
  "dquote = 34"

definition backslash :: nat where
  "backslash = 92"

text \<open>
  The two literal parts of the build descriptor, before and after the dependency
  step, with \<open>script_name\<close> substituted.
\<close>

definition dockerfile_head :: "pystr \<Rightarrow> pystr" where
  "dockerfile_head script_name = concat
     [py ''# auto-generated dockerfile for '', script_name, [newline],
      py ''FROM python:3.11-slim-bookworm'', [newline],
      [newline],
      py ''# Set working directory'', [newline],
      py ''WORKDIR /app'', [newline],
      [newline],
      py ''# Install system dependencies'', [newline],
      py ''RUN apt-get update && apt-get install -y '', [backslash, newline],
      py ''    gcc '', [backslash, newline],
      py ''    && rm -rf /var/lib/apt/lists/*'', [newline],
      [newline],
      py ''# Copy Python script'', [newline],
      py ''COPY '', script_name, py '' /app/'', [newline],
      [newline],
      py ''# Install Python dependencies'', [newline],
      [newline]]"

definition dockerfile_tail :: "pystr \<Rightarrow> pystr" where
  "dockerfile_tail script_name = concat
     [[newline],
      py ''# Run the script'', [newline],
      py ''CMD ['', [dquote], py ''python3'', [dquote], py '', '', [dquote], script_name,
      [dquote], py '']'', [newline]]"

definition create_dockerfile ::
    "env \<Rightarrow> pystr \<Rightarrow> pystr list \<Rightarrow> pystr \<Rightarrow> state \<Rightarrow> (exn + pystr) \<times> state" where
  "create_dockerfile e python_file pip_packages work_dir st =
     (let script_name = basename e python_file;
          dockerfile_content = dockerfile_head script_name;
          dockerfile_content =
            (if pip_packages \<noteq> [] then
               (let packages_str = str_join (py '' '') pip_packages
                in dockerfile_content @ py ''RUN pip install --no-cache-dir '' @ packages_str
                   @ [newline])
             else dockerfile_content @ py ''# No external dependencies detected'' @ [newline]);
          dockerfile_content = dockerfile_content @ dockerfile_tail script_name;
          dockerfile_path = path_join e work_dir (py ''Dockerfile'')
      in case write_file e dockerfile_path dockerfile_content st of
           (Inl x, st') \<Rightarrow> (Inl x, st')
         | (Inr _, st') \<Rightarrow>
             (Inr dockerfile_path,
              print (py ''Created Dockerfile at: '' @ dockerfile_path) st'))"

text \<open>
  \<open>sort\<close> is \<open>sorted\<close>: on strings the order is total and equal strings are the same
  string, so the sorted list is determined by the elements. The loop writes one line per
  package into the file it has opened.
\<close>

definition create_requirements_txt ::
    "env \<Rightarrow> pystr list \<Rightarrow> pystr \<Rightarrow> state \<Rightarrow> (exn + pystr option) \<times> state" where
  "create_requirements_txt e pip_packages work_dir st =
     (if pip_packages = [] then (Inr None, st)
      else
        (let requirements_path = path_join e work_dir (py ''requirements.txt'');
             written = foldl (\<lambda>f package. f @ package @ [newline]) [] (sort pip_packages)
         in case write_file e requirements_path written st of
              (Inl x, st') \<Rightarrow> (Inl x, st')
            | (Inr _, st') \<Rightarrow>
                (Inr (Some requirements_path),
                 print (py ''Created requirements.txt at: '' @ requirements_path) st')))"

section \<open>The container driver\<close>

definition rule60 :: pystr where
  "rule60 = replicate 60 (of_char CHR ''='')"

definition build_docker_image :: "env \<Rightarrow> pystr \<Rightarrow> pystr \<Rightarrow> state \<Rightarrow> (exn + bool) \<times> state" where
  "build_docker_image e work_dir image_name st =
     (let st = print ([newline] @ py '' [ + ] Building Docker image: '' @ image_name) st;
          st = print rule60 st
      in case subprocess_run e
                [py ''docker'', py ''build'', py ''-t'', image_name, py ''.''] (Some work_dir) of
           None \<Rightarrow>
             (Inr True,
              print (py ''[ + ] Successfully built image: '' @ image_name @ [newline])
                (print rule60 st))
         | Some (CalledProcessError m) \<Rightarrow>
             (Inr False,
              print (py ''[ - ] Failed to build Docker image: ''
                     @ exn_str (CalledProcessError m)) st)
         | Some (FileNotFoundError m) \<Rightarrow>
             (Inr False, print (py ''[ - ] Docker is not installed or not in PATH'') st)
         | Some x \<Rightarrow> (Inl x, st))"

definition run_docker_container :: "env \<Rightarrow> pystr \<Rightarrow> pystr \<Rightarrow> state \<Rightarrow> (exn + bool) \<times> state" where
  "run_docker_container e image_name container_name st =
     (let st = print (py '' [ + ] Running Docker container: '' @ container_name) st;
          st = print rule60 st
      in case subprocess_run e
                [py ''docker'', py ''run'', py ''-d'', py ''--name'', container_name,
                 py ''--rm'', image_name] None of
           None \<Rightarrow>
             (Inr True,
              print (py ''[ + ] Container '' @ container_name @ py '' finished execution''
                     @ [newline])
                (print rule60 st))
         | Some (CalledProcessError m) \<Rightarrow>
             (Inr False,
              print (py ''[ + ] Container execution failed: ''
                     @ exn_str (CalledProcessError m)) st)
         | Some KeyboardInterrupt \<Rightarrow>
             (Inr False, print ([newline] @ py ''[ + ] Container execution interrupted'') st)
         | Some x \<Rightarrow> (Inl x, st))"

section \<open>The command line: \<open>main\<close>\<close>

text \<open>
  The arguments as \<open>argparse\<close> delivers them. The process ends with \<open>Exit 1\<close>
  where the source calls \<open>sys.exit(1)\<close>, with \<open>Exit 0\<close> where \<open>main\<close> returns, and
  with \<open>Uncaught x\<close> where an exception leaves \<open>main\<close>.
\<close>

record args =
  args_python_file :: pystr
  args_no_run :: bool
  args_image_name :: "pystr option"
  args_container_name :: "pystr option"

datatype outcome = Exit nat | Uncaught exn

text \<open>\<open>str(n)\<close> for the length of a list.\<close>

fun str_nat :: "nat \<Rightarrow> pystr" where
  "str_nat n = (if n < 10 then [48 + n] else str_nat (n div 10) @ [48 + n mod 10])"

text \<open>\<open>a or b\<close> for an optional string: \<open>None\<close> and the empty string are false.\<close>

definition or_else :: "pystr option \<Rightarrow> pystr \<Rightarrow> pystr" where
  "or_else a b = (case a of None \<Rightarrow> b | Some s \<Rightarrow> if s = [] then b else s)"

text \<open>
  The part of \<open>main\<close> after the dependencies have been reported: it writes the
  files, builds, and runs unless told not to.
\<close>

definition main_build_and_run ::
    "env \<Rightarrow> args \<Rightarrow> pystr \<Rightarrow> pystr \<Rightarrow> pystr \<Rightarrow> pystr \<Rightarrow> pystr list \<Rightarrow> state
       \<Rightarrow> outcome \<times> state" where
  "main_build_and_run e a python_file work_dir image_name container_name pip_packages st =
     (case create_dockerfile e python_file pip_packages work_dir st of
        (Inl x, st) \<Rightarrow> (Uncaught x, st)
      | (Inr dockerfile_path, st) \<Rightarrow>
     (case (if pip_packages \<noteq> [] then create_requirements_txt e pip_packages work_dir st
            else (Inr None, st)) of
        (Inl x, st) \<Rightarrow> (Uncaught x, st)
      | (Inr _, st) \<Rightarrow>
     (case build_docker_image e work_dir image_name (print [] st) of
        (Inl x, st) \<Rightarrow> (Uncaught x, st)
      | (Inr False, st) \<Rightarrow> (Exit 1, st)
      | (Inr True, st) \<Rightarrow>
     (case (if \<not> args_no_run a then run_docker_container e image_name container_name st
            else (Inr False,
                  prints [py '' Skipping container run (--no-run flag set)'',
                          py '' To run manually: docker run --rm '' @ image_name] st)) of
        (Inl x, st) \<Rightarrow> (Uncaught x, st)
      | (Inr _, st) \<Rightarrow> (Exit 0, print ([newline] @ py ''Done!'' @ [newline]) st)))))"

definition main :: "env \<Rightarrow> args \<Rightarrow> state \<Rightarrow> outcome \<times> state" where
  "main e a st =
     (let python_file = args_python_file a in
      if \<not> isfile e python_file then
        (Exit 1, print (py ''[ - ] Error: File not found: '' @ python_file) st)
      else if \<not> suffix (py ''.py'') python_file then
        (Exit 1,
         print (py ''[ - ] Error: File must be a Python file (.py): '' @ python_file) st)
      else
        (let python_file = abspath e python_file;
             work_dir = dirname e python_file;
             script_name = basename e python_file;
             base_name = fst (splitext e script_name);
             image_name = or_else (args_image_name a) (py ''py-'' @ str_lower e base_name);
             container_name = or_else (args_container_name a) (image_name @ py ''-container'');
             st = prints
                    [[newline] @ rule60,
                     py ''Python to Docker Containerizer'',
                     rule60,
                     py ''Python file:  '' @ python_file,
                     py ''Work dir:     '' @ work_dir,
                     py ''Image name:   '' @ image_name,
                     py ''Container:    '' @ container_name,
                     rule60 @ [newline],
                     py '' [ + ] Analyzing dependencies...''] st
         in case parse_imports e python_file st of
              (Inl x, st) \<Rightarrow> (Uncaught x, st)
            | (Inr imports, st) \<Rightarrow>
                (let pip_packages = map_to_pip_packages (set_iteration e imports);
                     st = (if pip_packages \<noteq> [] then
                             prints
                               ((py ''Detected '' @ str_nat (length pip_packages)
                                 @ py '' external dependencies:'')
                                # map (\<lambda>pkg. py ''  - '' @ pkg) (sort pip_packages)) st
                           else print (py ''No external dependencies detected (stdlib only)'') st);
                     st = print [] st
                 in main_build_and_run e a python_file work_dir image_name container_name
                      pip_packages st)))"

section \<open>A sample host\<close>

text \<open>
  One concrete environment, set of arguments and initial state, on which the
  statements below are instantiated: a directory \<open>/w\<close> that holds \<open>app.py\<close>, where
  every write succeeds. What reading \<open>/w/app.py\<close> gives and how a command ends are
  parameters.
\<close>

definition sample_host :: "(exn + pystr) \<Rightarrow> (pystr list \<Rightarrow> exn option) \<Rightarrow> env" where
  "sample_host content run =
     \<lparr>isfile = (\<lambda>p. p = py ''app.py''),
      read_file = (\<lambda>p. if p = py ''/w/app.py'' then content
                        else Inl (FileNotFoundError (py ''No such file or directory''))),
      write_error = (\<lambda>p. None),
      abspath = (\<lambda>p. py ''/w/'' @ p),
      dirname = (\<lambda>p. py ''/w''),
      basename = (\<lambda>p. py ''app.py''),
      splitext = (\<lambda>p. (py ''app'', py ''.py'')),
      path_join = (\<lambda>d f. d @ py ''/'' @ f),
      str_lower = (\<lambda>s. s),
      subprocess_run = (\<lambda>argv cwd. run argv),
      set_iteration = sorted_list_of_set\<rparr>"

definition sample_args :: "pystr \<Rightarrow> args" where
  "sample_args file =
     \<lparr>args_python_file = file, args_no_run = False, args_image_name = None,
      args_container_name = None\<rparr>"

definition initial_state :: state where
  "initial_state = \<lparr>files = Map.empty, stdout = []\<rparr>"

section \<open>Properties of the pattern and of the scan\<close>

text \<open>
  The facts of this section relate the functions above to the language of the
  pattern. \<open>match_here_SomeD\<close> says that a match has the shape the pattern
  describes; \<open>match_here_complete\<close> says that the pattern matches wherever a text has
  that shape, and that the group is then the longest run of identifier characters: the
  greedy reading of \<open>match_here\<close> loses no match that backtracking would find.
\<close>

lemma py_eq_iff [simp]: "py s = py t \<longleftrightarrow> s = t"
  by (simp add: py_def inj_map_eq_map inj_of_char)




















lemmas extractor_eval =
  imports_of_def finditer_def match_here_def kw_import_def kw_from_def py_def
  is_space_def is_ident_def newline_def dquote_def













section \<open>Claims about the extractor\<close>











section \<open>Properties of the resolver\<close>

text \<open>The loop computes a filter followed by a map.\<close>

lemma map_loop_eq:
  "map_loop imps acc =
     acc @ map (\<lambda>imp. dict_get package_mapping imp imp) (filter (\<lambda>imp. imp \<notin> set stdlib) imps)"
  by (induction imps arbitrary: acc) (simp_all add: Let_def)

lemma map_to_pip_packages_eq:
  "map_to_pip_packages imps =
     map (\<lambda>imp. dict_get package_mapping imp imp) (filter (\<lambda>imp. imp \<notin> set stdlib) imps)"
  by (simp add: map_to_pip_packages_def map_loop_eq)


lemmas resolver_eval = map_to_pip_packages_eq dict_get_def package_mapping_def stdlib_def

lemma values_not_stdlib: "v \<in> snd ` set package_mapping \<Longrightarrow> v \<notin> set stdlib"
  by (auto simp: package_mapping_def stdlib_def)

lemma keys_not_stdlib: "k \<in> fst ` set package_mapping \<Longrightarrow> k \<notin> set stdlib"
  by (auto simp: package_mapping_def stdlib_def)

lemma values_not_keys: "v \<in> snd ` set package_mapping \<Longrightarrow> v \<notin> fst ` set package_mapping"
  by (auto simp: package_mapping_def)

lemma distinct_values: "distinct (map snd package_mapping)"
  by (simp add: package_mapping_def)

lemma map_of_value: "map_of package_mapping k = Some v \<Longrightarrow> v \<in> snd ` set package_mapping"
  by (metis map_of_SomeD image_eqI snd_conv)

lemma map_of_key: "map_of package_mapping k = Some v \<Longrightarrow> k \<in> fst ` set package_mapping"
  by (metis map_of_SomeD image_eqI fst_conv)

lemma map_of_inj:
  assumes "map_of package_mapping k = Some v" and "map_of package_mapping k' = Some v"
  shows "k = k'"
proof -
  have "(k, v) \<in> set package_mapping" "(k', v) \<in> set package_mapping"
    using assms by (auto dest: map_of_SomeD)
  then show ?thesis
    using distinct_values by (metis distinct_map inj_on_def snd_conv prod.inject)
qed

lemma dict_get_cases:
  "(map_of package_mapping k = None \<and> dict_get package_mapping k k = k) \<or>
   (\<exists>v. map_of package_mapping k = Some v \<and> dict_get package_mapping k k = v)"
  by (cases "map_of package_mapping k") (simp_all add: dict_get_def)

lemma resolved_not_stdlib:
  assumes "imp \<notin> set stdlib"
  shows "dict_get package_mapping imp imp \<notin> set stdlib"
proof (cases "map_of package_mapping imp")
  case None
  then show ?thesis
    using assms by (simp add: dict_get_def)
next
  case (Some v)
  then have "v \<notin> set stdlib"
    by (intro values_not_stdlib map_of_value)
  with Some show ?thesis
    by (simp add: dict_get_def)
qed

section \<open>Claims about the resolver and the multiple import\<close>





text \<open>
  C2. The resolver drops exactly the names in \<open>stdlib\<close>: its result has one entry
  for each other name of the input, in the order of the input, that entry being the
  name's translation; and no entry of the result is a name in \<open>stdlib\<close>.
\<close>

theorem resolver_drops_exactly_stdlib:
  "map_to_pip_packages imps =
     map (\<lambda>imp. dict_get package_mapping imp imp) (filter (\<lambda>imp. imp \<notin> set stdlib) imps) \<and>
   length (map_to_pip_packages imps) = length (filter (\<lambda>imp. imp \<notin> set stdlib) imps) \<and>
   set (map_to_pip_packages imps) \<inter> set stdlib = {}"
proof -
  have "set (map_to_pip_packages imps) \<inter> set stdlib = {}"
    using resolved_not_stdlib by (auto simp: map_to_pip_packages_eq)
  then show ?thesis
    by (simp add: map_to_pip_packages_eq)
qed

text \<open>
  C3. The entry the resolver emits for a name that is not in \<open>stdlib\<close>, wherever
  the name stands in the input, is the alias table's translation for the seven keys of
  the table and the name itself otherwise. None of the seven keys is in \<open>stdlib\<close>:
  the resolver turns them into the seven package names.
\<close>

theorem resolver_alias_or_verbatim:
  assumes "imp \<notin> set stdlib"
  shows "map_to_pip_packages (xs @ imp # ys) =
           map_to_pip_packages xs @
           (if imp = py ''cv2'' then py ''opencv-python''
            else if imp = py ''PIL'' then py ''Pillow''
            else if imp = py ''sklearn'' then py ''scikit-learn''
            else if imp = py ''yaml'' then py ''pyyaml''
            else if imp = py ''dotenv'' then py ''python-dotenv''
            else if imp = py ''bs4'' then py ''beautifulsoup4''
            else if imp = py ''dateutil'' then py ''python-dateutil''
            else imp) # map_to_pip_packages ys \<and>
         map_to_pip_packages
           [py ''cv2'', py ''PIL'', py ''sklearn'', py ''yaml'', py ''dotenv'', py ''bs4'',
            py ''dateutil''] =
           [py ''opencv-python'', py ''Pillow'', py ''scikit-learn'', py ''pyyaml'',
            py ''python-dotenv'', py ''beautifulsoup4'', py ''python-dateutil'']"
proof
  have "dict_get package_mapping imp imp =
           (if imp = py ''cv2'' then py ''opencv-python''
            else if imp = py ''PIL'' then py ''Pillow''
            else if imp = py ''sklearn'' then py ''scikit-learn''
            else if imp = py ''yaml'' then py ''pyyaml''
            else if imp = py ''dotenv'' then py ''python-dotenv''
            else if imp = py ''bs4'' then py ''beautifulsoup4''
            else if imp = py ''dateutil'' then py ''python-dateutil''
            else imp)"
    by (simp add: dict_get_def package_mapping_def)
  then show "map_to_pip_packages (xs @ imp # ys) =
           map_to_pip_packages xs @
           (if imp = py ''cv2'' then py ''opencv-python''
            else if imp = py ''PIL'' then py ''Pillow''
            else if imp = py ''sklearn'' then py ''scikit-learn''
            else if imp = py ''yaml'' then py ''pyyaml''
            else if imp = py ''dotenv'' then py ''python-dotenv''
            else if imp = py ''bs4'' then py ''beautifulsoup4''
            else if imp = py ''dateutil'' then py ''python-dateutil''
            else imp) # map_to_pip_packages ys"
    using assms by (simp add: map_to_pip_packages_eq)
next
  show "map_to_pip_packages
           [py ''cv2'', py ''PIL'', py ''sklearn'', py ''yaml'', py ''dotenv'', py ''bs4'',
            py ''dateutil''] =
           [py ''opencv-python'', py ''Pillow'', py ''scikit-learn'', py ''pyyaml'',
            py ''python-dotenv'', py ''beautifulsoup4'', py ''python-dateutil'']"
    by (simp add: resolver_eval)
qed

theorem resolver_alias_or_verbatim_witness:
  "map_to_pip_packages ([py ''os''] @ py ''flask'' # [py ''cv2'']) =
     map_to_pip_packages [py ''os''] @ py ''flask'' # map_to_pip_packages [py ''cv2''] \<and>
   map_to_pip_packages ([py ''os''] @ py ''yaml'' # [py ''cv2'']) =
     map_to_pip_packages [py ''os''] @ py ''pyyaml'' # map_to_pip_packages [py ''cv2''] \<and>
   map_to_pip_packages [py ''os''] = [] \<and>
   map_to_pip_packages [py ''cv2''] = [py ''opencv-python'']"
proof -
  have h1: "py ''flask'' \<notin> set stdlib" and h2: "py ''yaml'' \<notin> set stdlib"
    by (simp_all add: stdlib_def)
  have e: "map_to_pip_packages [py ''os''] = []"
    "map_to_pip_packages [py ''cv2''] = [py ''opencv-python'']"
    by (simp_all add: resolver_eval)
  from resolver_alias_or_verbatim [OF h1, of "[py ''os'']" "[py ''cv2'']"]
    resolver_alias_or_verbatim [OF h2, of "[py ''os'']" "[py ''cv2'']"] e
  show ?thesis
    by simp
qed

text \<open>
  C4, as the code has it. The resolver removes no duplicates. For an input without
  duplicates, the package list is free of duplicates exactly when the input does not
  hold both a key of the alias table and the package name the key is translated to.
\<close>

theorem package_list_distinct_iff:
  assumes "distinct imps"
  shows "distinct (map_to_pip_packages imps) \<longleftrightarrow>
           \<not> (\<exists>k v. k \<in> set imps \<and> v \<in> set imps \<and> map_of package_mapping k = Some v)"
proof -
  let ?f = "\<lambda>imp. dict_get package_mapping imp imp"
  let ?xs = "filter (\<lambda>imp. imp \<notin> set stdlib) imps"
  have d: "distinct ?xs"
    using assms by simp
  have iff: "distinct (map_to_pip_packages imps) \<longleftrightarrow> inj_on ?f (set ?xs)"
    using d by (simp add: map_to_pip_packages_eq distinct_map)
  show ?thesis
  proof
    assume dist: "distinct (map_to_pip_packages imps)"
    show "\<not> (\<exists>k v. k \<in> set imps \<and> v \<in> set imps \<and> map_of package_mapping k = Some v)"
    proof
      assume "\<exists>k v. k \<in> set imps \<and> v \<in> set imps \<and> map_of package_mapping k = Some v"
      then obtain k v where kv: "k \<in> set imps" "v \<in> set imps" "map_of package_mapping k = Some v"
        by blast
      have "k \<notin> set stdlib"
        using kv(3) by (intro keys_not_stdlib map_of_key)
      then have k: "k \<in> set ?xs"
        using kv(1) by simp
      have "v \<notin> set stdlib"
        using kv(3) by (intro values_not_stdlib map_of_value)
      then have v: "v \<in> set ?xs"
        using kv(2) by simp
      have "v \<notin> fst ` set package_mapping"
        using kv(3) by (intro values_not_keys map_of_value)
      then have "map_of package_mapping v = None"
        by (simp add: map_of_eq_None_iff)
      then have "?f v = v"
        by (simp add: dict_get_def)
      moreover have "?f k = v"
        using kv(3) by (simp add: dict_get_def)
      ultimately have eq: "?f k = ?f v"
        by simp
      have inj: "inj_on ?f (set ?xs)"
        using iff dist by simp
      have "k = v"
        by (rule inj_onD [OF inj eq k v])
      with kv(3) \<open>map_of package_mapping v = None\<close> show False
        by simp
    qed
  next
    assume no: "\<not> (\<exists>k v. k \<in> set imps \<and> v \<in> set imps \<and> map_of package_mapping k = Some v)"
    have "inj_on ?f (set ?xs)"
    proof (rule inj_onI)
      fix a b
      assume a: "a \<in> set ?xs" and b: "b \<in> set ?xs" and eq: "?f a = ?f b"
      from a b have mem: "a \<in> set imps" "b \<in> set imps"
        by auto
      show "a = b"
      proof (cases "map_of package_mapping a")
        case None
        note na = None
        show ?thesis
        proof (cases "map_of package_mapping b")
          case None
          with na eq show ?thesis
            by (simp add: dict_get_def)
        next
          case (Some v)
          with na eq have "v = a"
            by (simp add: dict_get_def)
          with Some mem no show ?thesis
            by blast
        qed
      next
        case (Some v)
        note sa = Some
        show ?thesis
        proof (cases "map_of package_mapping b")
          case None
          with sa eq have "v = b"
            by (simp add: dict_get_def)
          with sa mem no show ?thesis
            by blast
        next
          case (Some w)
          with sa eq have "v = w"
            by (simp add: dict_get_def)
          with sa Some show ?thesis
            by (auto intro: map_of_inj)
        qed
      qed
    qed
    with iff show "distinct (map_to_pip_packages imps)"
      by simp
  qed
qed

theorem package_list_distinct_iff_witness:
  "distinct (map_to_pip_packages [py ''yaml'', py ''requests'', py ''os'']) \<and>
   map_to_pip_packages [py ''yaml'', py ''requests'', py ''os''] = [py ''pyyaml'', py ''requests'']"
proof -
  have h: "distinct [py ''yaml'', py ''requests'', py ''os'']"
    by simp
  have n: "\<not> (\<exists>k v. k \<in> set [py ''yaml'', py ''requests'', py ''os''] \<and>
                 v \<in> set [py ''yaml'', py ''requests'', py ''os''] \<and>
                 map_of package_mapping k = Some v)"
    by (auto simp: package_mapping_def)
  have e: "map_to_pip_packages [py ''yaml'', py ''requests'', py ''os''] =
             [py ''pyyaml'', py ''requests'']"
    by (simp add: resolver_eval)
  from package_list_distinct_iff [OF h] n e show ?thesis
    by blast
qed

text \<open>
  C4 as stated fails: a file that imports both \<open>yaml\<close> and \<open>pyyaml\<close> gives a set
  of two names, and in either order the resolver returns \<open>pyyaml\<close> twice.
\<close>

theorem alias_key_and_package_name_duplicate:
  "imports_of (py ''import yaml\<newline>import pyyaml\<newline>'') = {py ''yaml'', py ''pyyaml''} \<and>
   distinct [py ''yaml'', py ''pyyaml''] \<and>
   map_to_pip_packages [py ''yaml'', py ''pyyaml''] = [py ''pyyaml'', py ''pyyaml''] \<and>
   map_to_pip_packages [py ''pyyaml'', py ''yaml''] = [py ''pyyaml'', py ''pyyaml''] \<and>
   \<not> distinct (map_to_pip_packages [py ''yaml'', py ''pyyaml''])"
proof -
  have 1: "imports_of (py ''import yaml\<newline>import pyyaml\<newline>'') = {py ''yaml'', py ''pyyaml''}"
    by (simp add: extractor_eval)
  have 2: "map_to_pip_packages [py ''yaml'', py ''pyyaml''] = [py ''pyyaml'', py ''pyyaml'']"
    "map_to_pip_packages [py ''pyyaml'', py ''yaml''] = [py ''pyyaml'', py ''pyyaml'']"
    by (simp_all add: resolver_eval)
  from 1 2 show ?thesis
    by simp
qed

section \<open>Properties of the effects\<close>

lemma files_print [simp]: "files (print s st) = files st"
  by (simp add: print_def)

lemma stdout_print [simp]: "stdout (print s st) = stdout st @ s @ [newline]"
  by (simp add: print_def)

lemma files_prints [simp]: "files (prints ls st) = files st"
  unfolding prints_def by (induction ls arbitrary: st) simp_all

lemma stdout_prints: "\<exists>t. stdout (prints ls st) = stdout st @ t"
  unfolding prints_def
proof (induction ls arbitrary: st)
  case Nil
  show ?case by simp
next
  case (Cons l ls)
  from Cons [of "print l st"] obtain t where "stdout (fold print ls (print l st)) = stdout (print l st) @ t"
    by blast
  then have "stdout (fold print (l # ls) st) = stdout st @ (l @ [newline] @ t)"
    by simp
  then show ?case by blast
qed

lemma foldl_lines: "foldl (\<lambda>f package. f @ package @ [newline]) acc ps =
    acc @ concat (map (\<lambda>p. p @ [newline]) ps)"
  by (induction ps arbitrary: acc) simp_all

lemma create_requirements_txt_written:
  assumes "pip_packages \<noteq> []"
    and "write_error e (path_join e work_dir (py ''requirements.txt'')) = None"
  shows "create_requirements_txt e pip_packages work_dir st =
           (Inr (Some (path_join e work_dir (py ''requirements.txt''))),
            print (py ''Created requirements.txt at: '' @ path_join e work_dir (py ''requirements.txt''))
              (st\<lparr>files := (files st)(path_join e work_dir (py ''requirements.txt'') \<mapsto>
                       concat (map (\<lambda>p. p @ [newline]) (sort pip_packages)))\<rparr>))"
  using assms by (simp add: create_requirements_txt_def write_file_def Let_def foldl_lines)

lemma create_requirements_txt_raises:
  assumes "pip_packages \<noteq> []"
    and "write_error e (path_join e work_dir (py ''requirements.txt'')) = Some x"
  shows "create_requirements_txt e pip_packages work_dir st = (Inl x, st)"
  using assms by (simp add: create_requirements_txt_def write_file_def Let_def)

lemma create_dockerfile_written:
  assumes "write_error e (path_join e work_dir (py ''Dockerfile'')) = None"
  shows "create_dockerfile e python_file pip_packages work_dir st =
           (Inr (path_join e work_dir (py ''Dockerfile'')),
            print (py ''Created Dockerfile at: '' @ path_join e work_dir (py ''Dockerfile''))
              (st\<lparr>files := (files st)(path_join e work_dir (py ''Dockerfile'') \<mapsto>
                 dockerfile_head (basename e python_file) @
                 (if pip_packages \<noteq> [] then
                    py ''RUN pip install --no-cache-dir '' @ str_join (py '' '') pip_packages
                    @ [newline]
                  else py ''# No external dependencies detected'' @ [newline]) @
                 dockerfile_tail (basename e python_file))\<rparr>))"
  using assms by (simp add: create_dockerfile_def write_file_def Let_def)

lemma create_dockerfile_raises:
  assumes "write_error e (path_join e work_dir (py ''Dockerfile'')) = Some x"
  shows "create_dockerfile e python_file pip_packages work_dir st = (Inl x, st)"
  using assms by (simp add: create_dockerfile_def write_file_def Let_def)


lemma build_docker_image_files:
  "files (snd (build_docker_image e work_dir image_name st)) = files st"
  by (simp add: build_docker_image_def Let_def split: option.splits exn.splits)


lemma run_docker_container_files:
  "files (snd (run_docker_container e image_name container_name st)) = files st"
  by (simp add: run_docker_container_def Let_def split: option.splits exn.splits)




lemma not_interrupt_is_Exception: "x \<noteq> KeyboardInterrupt \<Longrightarrow> is_Exception x"
  by (cases x) simp_all

lemma parse_imports_returns:
  assumes "read_file e python_file \<noteq> Inl KeyboardInterrupt"
  shows "\<exists>st'. parse_imports e python_file st =
           (Inr (case read_file e python_file of
                   Inr content \<Rightarrow> imports_of content | Inl x \<Rightarrow> {}), st')"
proof (cases "read_file e python_file")
  case (Inl x)
  with assms have "is_Exception x"
    by (intro not_interrupt_is_Exception) auto
  with Inl show ?thesis
    by (simp add: parse_imports_def)
next
  case (Inr content)
  then show ?thesis
    by (simp add: parse_imports_def)
qed

lemma main_proceeds:
  assumes "isfile e (args_python_file a)" and "suffix (py ''.py'') (args_python_file a)"
    and "read_file e (abspath e (args_python_file a)) \<noteq> Inl KeyboardInterrupt"
  shows "\<exists>st'. main e a st =
           main_build_and_run e a (abspath e (args_python_file a))
             (dirname e (abspath e (args_python_file a)))
             (or_else (args_image_name a)
                (py ''py-'' @ str_lower e
                   (fst (splitext e (basename e (abspath e (args_python_file a)))))))
             (or_else (args_container_name a)
                (or_else (args_image_name a)
                   (py ''py-'' @ str_lower e
                      (fst (splitext e (basename e (abspath e (args_python_file a))))))
                 @ py ''-container''))
             (map_to_pip_packages
                (set_iteration e
                   (case read_file e (abspath e (args_python_file a)) of
                      Inr content \<Rightarrow> imports_of content
                    | Inl x \<Rightarrow> {})))
             st'"
proof -
  define banner where "banner = prints
                    [[newline] @ rule60,
                     py ''Python to Docker Containerizer'',
                     rule60,
                     py ''Python file:  '' @ abspath e (args_python_file a),
                     py ''Work dir:     '' @ dirname e (abspath e (args_python_file a)),
                     py ''Image name:   '' @ or_else (args_image_name a)
                (py ''py-'' @ str_lower e
                   (fst (splitext e (basename e (abspath e (args_python_file a)))))),
                     py ''Container:    '' @ or_else (args_container_name a)
                (or_else (args_image_name a)
                   (py ''py-'' @ str_lower e
                      (fst (splitext e (basename e (abspath e (args_python_file a))))))
                 @ py ''-container''),
                     rule60 @ [newline],
                     py '' [ + ] Analyzing dependencies...''] st"
  from parse_imports_returns [OF assms(3), of banner] obtain st' where
    p: "parse_imports e (abspath e (args_python_file a)) banner =
           (Inr (case read_file e (abspath e (args_python_file a)) of
                   Inr content \<Rightarrow> imports_of content | Inl x \<Rightarrow> {}), st')"
    by blast
  show ?thesis
    unfolding main_def Let_def
    apply (simp only: assms(1,2) not_True_eq_False if_False)
    apply (simp only: banner_def [symmetric] p prod.case sum.case)
    apply (rule exI, rule refl)
    done
qed




lemma scenario_packages:
  assumes "distinct imps" and "set imps = {py ''os'', py ''requests'', py ''bs4''}"
  shows "mset (map_to_pip_packages imps) = {#py ''requests'', py ''beautifulsoup4''#}"
proof -
  have "distinct [py ''os'', py ''requests'', py ''bs4'']"
    by simp
  moreover have "set imps = set [py ''os'', py ''requests'', py ''bs4'']"
    using assms(2) by simp
  ultimately have "mset imps = mset [py ''os'', py ''requests'', py ''bs4'']"
    using assms(1) by (simp only: set_eq_iff_mset_eq_distinct)
  then have "mset (map_to_pip_packages imps) =
               mset (map_to_pip_packages [py ''os'', py ''requests'', py ''bs4''])"
    unfolding map_to_pip_packages_eq by (simp only: mset_map mset_filter)
  also have "map_to_pip_packages [py ''os'', py ''requests'', py ''bs4''] =
               [py ''requests'', py ''beautifulsoup4'']"
    by (simp add: resolver_eval)
  finally show ?thesis
    by simp
qed

section \<open>Claims about reading, writing and the process\<close>

text \<open>
  C5. When reading the file raises an \<open>Exception\<close> (the file is missing or
  unreadable, or its bytes do not decode), \<open>parse_imports\<close> returns normally: its
  result is the empty set and it has printed the warning. \<open>main\<close>, called on a path
  it accepts, then goes on to write, build and run with an empty package list
  (iterating over the empty set visits nothing).
\<close>

theorem read_failure_gives_empty_set:
  assumes "read_file e python_file = Inl x" and "is_Exception x"
  shows "parse_imports e python_file st =
           (Inr {},
            print (py ''Warning: Could not parse imports from '' @ python_file @ py '': ''
                   @ exn_str x) st) \<and>
         (python_file = abspath e (args_python_file a) \<and> isfile e (args_python_file a) \<and>
          suffix (py ''.py'') (args_python_file a) \<and> set_iteration e {} = [] \<longrightarrow>
            (\<exists>st'. main e a st0 =
               main_build_and_run e a python_file (dirname e python_file)
                 (or_else (args_image_name a)
                    (py ''py-'' @ str_lower e (fst (splitext e (basename e python_file)))))
                 (or_else (args_container_name a)
                    (or_else (args_image_name a)
                       (py ''py-'' @ str_lower e (fst (splitext e (basename e python_file))))
                     @ py ''-container''))
                 [] st'))"
proof (intro conjI impI)
  show "parse_imports e python_file st =
           (Inr {},
            print (py ''Warning: Could not parse imports from '' @ python_file @ py '': ''
                   @ exn_str x) st)"
    using assms by (simp add: parse_imports_def)
next
  assume h: "python_file = abspath e (args_python_file a) \<and> isfile e (args_python_file a) \<and>
          suffix (py ''.py'') (args_python_file a) \<and> set_iteration e {} = []"
  have r: "read_file e (abspath e (args_python_file a)) = Inl x"
    using assms(1) h by simp
  have n: "read_file e (abspath e (args_python_file a)) \<noteq> Inl KeyboardInterrupt"
    using assms(2) r by auto
  have p: "map_to_pip_packages (set_iteration e
             (case read_file e (abspath e (args_python_file a)) of
                Inr content \<Rightarrow> imports_of content | Inl x \<Rightarrow> {})) = []"
    using h by (simp add: r map_to_pip_packages_def)
  from main_proceeds [of e a, OF _ _ n, of st0] h
  show "\<exists>st'. main e a st0 =
               main_build_and_run e a python_file (dirname e python_file)
                 (or_else (args_image_name a)
                    (py ''py-'' @ str_lower e (fst (splitext e (basename e python_file)))))
                 (or_else (args_container_name a)
                    (or_else (args_image_name a)
                       (py ''py-'' @ str_lower e (fst (splitext e (basename e python_file))))
                     @ py ''-container''))
                 [] st'"
    by (simp only: p)
qed

theorem read_failure_gives_empty_set_witness:
  "parse_imports (sample_host (Inl (UnicodeDecodeError (py ''invalid start byte''))) (\<lambda>argv. None))
     (py ''/w/app.py'') initial_state =
     (Inr {},
      print (py ''Warning: Could not parse imports from '' @ py ''/w/app.py'' @ py '': ''
             @ py ''invalid start byte'') initial_state) \<and>
   (\<exists>st'. main (sample_host (Inl (UnicodeDecodeError (py ''invalid start byte''))) (\<lambda>argv. None))
            (sample_args (py ''app.py'')) initial_state =
          main_build_and_run
            (sample_host (Inl (UnicodeDecodeError (py ''invalid start byte''))) (\<lambda>argv. None))
            (sample_args (py ''app.py'')) (py ''/w/app.py'') (py ''/w'') (py ''py-app'')
            (py ''py-app-container'') [] st')"
proof -
  let ?e = "sample_host (Inl (UnicodeDecodeError (py ''invalid start byte''))) (\<lambda>argv. None)"
  have h1: "read_file ?e (py ''/w/app.py'') = Inl (UnicodeDecodeError (py ''invalid start byte''))"
    by (simp add: sample_host_def)
  have h2: "is_Exception (UnicodeDecodeError (py ''invalid start byte''))"
    by simp
  have h3: "py ''/w/app.py'' = abspath ?e (args_python_file (sample_args (py ''app.py''))) \<and>
            isfile ?e (args_python_file (sample_args (py ''app.py''))) \<and>
            suffix (py ''.py'') (args_python_file (sample_args (py ''app.py''))) \<and>
            set_iteration ?e {} = []"
    by (simp add: sample_host_def sample_args_def py_def suffix_def)
  have n: "dirname ?e (py ''/w/app.py'') = py ''/w''"
    "or_else (args_image_name (sample_args (py ''app.py'')))
       (py ''py-'' @ str_lower ?e (fst (splitext ?e (basename ?e (py ''/w/app.py''))))) =
     py ''py-app''"
    "or_else (args_container_name (sample_args (py ''app.py'')))
       (py ''py-app'' @ py ''-container'') = py ''py-app-container''"
    by (simp_all add: sample_host_def sample_args_def or_else_def py_def)
  note t = read_failure_gives_empty_set [OF h1 h2, of initial_state "sample_args (py ''app.py'')"
      initial_state]
  from t have a: "parse_imports ?e (py ''/w/app.py'') initial_state =
     (Inr {},
      print (py ''Warning: Could not parse imports from '' @ py ''/w/app.py'' @ py '': ''
             @ exn_str (UnicodeDecodeError (py ''invalid start byte''))) initial_state)"
    by (rule conjunct1)
  from t h3 have b: "\<exists>st'. main ?e (sample_args (py ''app.py'')) initial_state =
      main_build_and_run ?e (sample_args (py ''app.py'')) (py ''/w/app.py'')
        (dirname ?e (py ''/w/app.py''))
        (or_else (args_image_name (sample_args (py ''app.py'')))
           (py ''py-'' @ str_lower ?e (fst (splitext ?e (basename ?e (py ''/w/app.py''))))))
        (or_else (args_container_name (sample_args (py ''app.py'')))
           (or_else (args_image_name (sample_args (py ''app.py'')))
              (py ''py-'' @ str_lower ?e (fst (splitext ?e (basename ?e (py ''/w/app.py'')))))
            @ py ''-container''))
        [] st'"
    by blast
  from a b show ?thesis
    by (simp only: n exn_str.simps)
qed

text \<open>
  C6. For an empty package list \<open>create_requirements_txt\<close> returns \<open>None\<close> and
  leaves the state as it is, and the build descriptor written by \<open>create_dockerfile\<close>
  has the comment line \<open># No external dependencies detected\<close> between its two fixed
  parts. For a package list that is not empty, the manifest holds the package names
  in sorted order, each followed by a line feed, and the descriptor has the line
  \<open>RUN pip install --no-cache-dir\<close> with the packages, separated by spaces, in that
  place. Both writes are taken to succeed.
\<close>

theorem manifest_and_descriptor:
  assumes "write_error e (path_join e work_dir (py ''Dockerfile'')) = None"
    and "write_error e (path_join e work_dir (py ''requirements.txt'')) = None"
  shows "create_requirements_txt e [] work_dir st = (Inr None, st) \<and>
         files (snd (create_dockerfile e python_file [] work_dir st))
             (path_join e work_dir (py ''Dockerfile'')) =
           Some (dockerfile_head (basename e python_file) @
                 py ''# No external dependencies detected'' @ [newline] @
                 dockerfile_tail (basename e python_file)) \<and>
         (pip_packages \<noteq> [] \<longrightarrow>
            files (snd (create_requirements_txt e pip_packages work_dir st))
                (path_join e work_dir (py ''requirements.txt'')) =
              Some (concat (map (\<lambda>p. p @ [newline]) (sort pip_packages))) \<and>
            sorted (sort pip_packages) \<and> mset (sort pip_packages) = mset pip_packages \<and>
            files (snd (create_dockerfile e python_file pip_packages work_dir st))
                (path_join e work_dir (py ''Dockerfile'')) =
              Some (dockerfile_head (basename e python_file) @
                    py ''RUN pip install --no-cache-dir '' @ str_join (py '' '') pip_packages @
                    [newline] @ dockerfile_tail (basename e python_file)))"
  using create_requirements_txt_written [OF _ assms(2), of pip_packages st]
  by (simp add: create_dockerfile_written [OF assms(1)])
    (simp add: create_requirements_txt_def)

theorem manifest_and_descriptor_witness:
  "create_requirements_txt (sample_host (Inr []) (\<lambda>argv. None)) [] (py ''/w'') initial_state =
     (Inr None, initial_state) \<and>
   files (snd (create_dockerfile (sample_host (Inr []) (\<lambda>argv. None)) (py ''/w/app.py'') []
                 (py ''/w'') initial_state)) (py ''/w/Dockerfile'') =
     Some (dockerfile_head (py ''app.py'') @ py ''# No external dependencies detected'' @
           [newline] @ dockerfile_tail (py ''app.py'')) \<and>
   files (snd (create_requirements_txt (sample_host (Inr []) (\<lambda>argv. None))
                 [py ''requests'', py ''flask''] (py ''/w'') initial_state))
       (py ''/w/requirements.txt'') =
     Some (py ''flask'' @ [newline] @ py ''requests'' @ [newline]) \<and>
   files (snd (create_dockerfile (sample_host (Inr []) (\<lambda>argv. None)) (py ''/w/app.py'')
                 [py ''requests'', py ''flask''] (py ''/w'') initial_state))
       (py ''/w/Dockerfile'') =
     Some (dockerfile_head (py ''app.py'') @
           py ''RUN pip install --no-cache-dir requests flask'' @ [newline] @
           dockerfile_tail (py ''app.py''))"
proof -
  let ?e = "sample_host (Inr []) (\<lambda>argv. None)"
  have h1: "write_error ?e (path_join ?e (py ''/w'') (py ''Dockerfile'')) = None"
    and h2: "write_error ?e (path_join ?e (py ''/w'') (py ''requirements.txt'')) = None"
    by (simp_all add: sample_host_def)
  have n: "path_join ?e (py ''/w'') (py ''Dockerfile'') = py ''/w/Dockerfile''"
    "path_join ?e (py ''/w'') (py ''requirements.txt'') = py ''/w/requirements.txt''"
    "basename ?e (py ''/w/app.py'') = py ''app.py''"
    by (simp_all add: sample_host_def py_def)
  have s: "sort [py ''requests'', py ''flask''] = [py ''flask'', py ''requests'']"
    by (simp add: py_def)
  have j: "py ''RUN pip install --no-cache-dir '' @
             str_join (py '' '') [py ''requests'', py ''flask''] =
           py ''RUN pip install --no-cache-dir requests flask''"
    by (simp add: py_def)
  have ne: "[py ''requests'', py ''flask''] \<noteq> []"
    by simp
  note t = manifest_and_descriptor [OF h1 h2, of initial_state "py ''/w/app.py''"
      "[py ''requests'', py ''flask'']", unfolded n]
  from t have a: "create_requirements_txt ?e [] (py ''/w'') initial_state = (Inr None, initial_state)"
    by (rule conjunct1)
  from t have b: "files (snd (create_dockerfile ?e (py ''/w/app.py'') [] (py ''/w'') initial_state))
       (py ''/w/Dockerfile'') =
     Some (dockerfile_head (py ''app.py'') @ py ''# No external dependencies detected'' @
           [newline] @ dockerfile_tail (py ''app.py''))"
    by blast
  from t ne have c: "files (snd (create_requirements_txt ?e [py ''requests'', py ''flask'']
                                   (py ''/w'') initial_state)) (py ''/w/requirements.txt'') =
              Some (concat (map (\<lambda>p. p @ [newline]) (sort [py ''requests'', py ''flask''])))"
    by blast
  from t ne have d: "files (snd (create_dockerfile ?e (py ''/w/app.py'')
                                   [py ''requests'', py ''flask''] (py ''/w'') initial_state))
                (py ''/w/Dockerfile'') =
              Some (dockerfile_head (py ''app.py'') @
                    py ''RUN pip install --no-cache-dir '' @
                    str_join (py '' '') [py ''requests'', py ''flask''] @
                    [newline] @ dockerfile_tail (py ''app.py''))"
    by blast
  have c': "concat (map (\<lambda>p. p @ [newline]) (sort [py ''requests'', py ''flask''])) =
              py ''flask'' @ [newline] @ py ''requests'' @ [newline]"
    by (simp only: s) simp
  have d': "dockerfile_head (py ''app.py'') @
                    py ''RUN pip install --no-cache-dir '' @
                    str_join (py '' '') [py ''requests'', py ''flask''] @
                    [newline] @ dockerfile_tail (py ''app.py'') =
            dockerfile_head (py ''app.py'') @
           py ''RUN pip install --no-cache-dir requests flask'' @ [newline] @
           dockerfile_tail (py ''app.py'')"
    using j by (simp only: append_assoc [symmetric])
  from a b c d show ?thesis
    by (simp only: c' d')
qed

text \<open>
  C8. The content with the lines \<open>import os\<close>, \<open>import requests\<close> and
  \<open>from bs4 import BeautifulSoup\<close> gives the set \<open>{os, requests, bs4}\<close>. In
  whatever order that set is iterated, the package list has the two entries
  \<open>requests\<close> and \<open>beautifulsoup4\<close> and not \<open>os\<close>, and the manifest written
  from it is the line \<open>beautifulsoup4\<close> followed by the line \<open>requests\<close>.
\<close>

theorem scenario_os_requests_bs4:
  assumes "distinct imps"
    and "set imps =
           imports_of (py ''import os\<newline>import requests\<newline>from bs4 import BeautifulSoup\<newline>'')"
    and "write_error e (path_join e work_dir (py ''requirements.txt'')) = None"
  shows "imports_of (py ''import os\<newline>import requests\<newline>from bs4 import BeautifulSoup\<newline>'') =
           {py ''os'', py ''requests'', py ''bs4''} \<and>
         set (map_to_pip_packages imps) = {py ''requests'', py ''beautifulsoup4''} \<and>
         length (map_to_pip_packages imps) = 2 \<and>
         py ''os'' \<notin> set (map_to_pip_packages imps) \<and>
         files (snd (create_requirements_txt e (map_to_pip_packages imps) work_dir st))
             (path_join e work_dir (py ''requirements.txt'')) =
           Some (py ''beautifulsoup4'' @ [newline] @ py ''requests'' @ [newline])"
proof -
  have 1: "imports_of (py ''import os\<newline>import requests\<newline>from bs4 import BeautifulSoup\<newline>'') =
           {py ''os'', py ''requests'', py ''bs4''}"
    by (simp add: extractor_eval)
  have m: "mset (map_to_pip_packages imps) = {#py ''requests'', py ''beautifulsoup4''#}"
    using assms(1,2) 1 by (intro scenario_packages) simp_all
  have 2: "set (map_to_pip_packages imps) = {py ''requests'', py ''beautifulsoup4''}"
    using arg_cong [OF m, of set_mset] by simp
  have 3: "length (map_to_pip_packages imps) = 2"
    using arg_cong [OF m, of size] by simp
  have 4: "py ''os'' \<notin> set (map_to_pip_packages imps)"
    by (simp add: 2)
  have ne: "map_to_pip_packages imps \<noteq> []"
    using 3 by auto
  have "mset [py ''beautifulsoup4'', py ''requests''] = mset (map_to_pip_packages imps)"
    by (simp add: m)
  moreover have "sorted [py ''beautifulsoup4'', py ''requests'']"
    by (simp add: py_def)
  ultimately have s: "sort (map_to_pip_packages imps) = [py ''beautifulsoup4'', py ''requests'']"
    by (rule properties_for_sort)
  have 5: "files (snd (create_requirements_txt e (map_to_pip_packages imps) work_dir st))
             (path_join e work_dir (py ''requirements.txt'')) =
           Some (py ''beautifulsoup4'' @ [newline] @ py ''requests'' @ [newline])"
    by (simp add: create_requirements_txt_written [OF ne assms(3)] s)
  from 1 2 3 4 5 show ?thesis
    by blast
qed

theorem scenario_os_requests_bs4_witness:
  "map_to_pip_packages [py ''bs4'', py ''os'', py ''requests''] =
     [py ''beautifulsoup4'', py ''requests''] \<and>
   files (snd (create_requirements_txt (sample_host (Inr []) (\<lambda>argv. None))
                 (map_to_pip_packages [py ''bs4'', py ''os'', py ''requests'']) (py ''/w'')
                 initial_state))
       (py ''/w/requirements.txt'') =
     Some (py ''beautifulsoup4'' @ [newline] @ py ''requests'' @ [newline])"
proof -
  let ?e = "sample_host (Inr []) (\<lambda>argv. None)"
  have h1: "distinct [py ''bs4'', py ''os'', py ''requests'']"
    by simp
  have h2: "set [py ''bs4'', py ''os'', py ''requests''] =
              imports_of (py ''import os\<newline>import requests\<newline>from bs4 import BeautifulSoup\<newline>'')"
    by (simp add: extractor_eval) auto
  have h3: "write_error ?e (path_join ?e (py ''/w'') (py ''requirements.txt'')) = None"
    by (simp add: sample_host_def)
  have n: "path_join ?e (py ''/w'') (py ''requirements.txt'') = py ''/w/requirements.txt''"
    by (simp add: sample_host_def py_def)
  have e: "map_to_pip_packages [py ''bs4'', py ''os'', py ''requests''] =
     [py ''beautifulsoup4'', py ''requests'']"
    by (simp add: resolver_eval)
  from scenario_os_requests_bs4 [OF h1 h2 h3, of initial_state] e show ?thesis
    by (simp only: n)
qed




end
